theory Spec2Isabelle
  imports Complex_Main "HOL-Library.Word"
begin

unbundle bit_operations_syntax

section \<open>The ODrive hardware interface of ros\_odrive\<close>

text \<open>
  The development follows \<^verbatim>\<open>odrive_hardware_interface.cpp\<close>: the struct \<^verbatim>\<open>Axis\<close>, the
  class \<^verbatim>\<open>ODriveHardwareInterface\<close> and its methods \<^verbatim>\<open>read\<close>, \<^verbatim>\<open>write\<close>,
  \<^verbatim>\<open>on_can_msg\<close>, \<^verbatim>\<open>set_axis_command_mode\<close>, \<^verbatim>\<open>on_activate\<close> and \<^verbatim>\<open>on_deactivate\<close>.
\<close>

subsection \<open>Values of type double\<close>

text \<open>
  A C++ \<^verbatim>\<open>double\<close> is a finite number, an infinity or a NaN. The arithmetic below is
  the exact one on the finite values (rounding, overflow and underflow are left out), with
  the IEEE 754 rules for the special values: NaN is absorbing, zero times infinity and
  zero over zero and infinity over infinity are NaN, a nonzero number over zero is an
  infinity. \<open>Infinite\<close> stands for the infinity of either sign and \<open>Fin 0\<close> for the zero of
  either sign; the source never compares two doubles and never adds them.
\<close>

datatype double = Fin real | Infinite | NaN

instantiation double :: "{uminus, times, inverse}"
begin

fun uminus_double :: "double \<Rightarrow> double" where
  "uminus_double (Fin x) = Fin (- x)"
| "uminus_double Infinite = Infinite"
| "uminus_double NaN = NaN"

fun times_double :: "double \<Rightarrow> double \<Rightarrow> double" where
  "times_double (Fin x) (Fin y) = Fin (x * y)"
| "times_double (Fin x) Infinite = (if x = 0 then NaN else Infinite)"
| "times_double Infinite (Fin y) = (if y = 0 then NaN else Infinite)"
| "times_double Infinite Infinite = Infinite"
| "times_double NaN y = NaN"
| "times_double x NaN = NaN"

fun divide_double :: "double \<Rightarrow> double \<Rightarrow> double" where
  "divide_double (Fin x) (Fin y) =
     (if y = 0 then (if x = 0 then NaN else Infinite) else Fin (x / y))"
| "divide_double (Fin x) Infinite = Fin 0"
| "divide_double Infinite (Fin y) = Infinite"
| "divide_double Infinite Infinite = NaN"
| "divide_double NaN y = NaN"
| "divide_double x NaN = NaN"

definition inverse_double :: "double \<Rightarrow> double" where
  "inverse_double x = divide (Fin 1) x"

instance ..

end

definition M_PI :: double where
  \<comment> \<open>the macro of \<^verbatim>\<open><cmath>\<close>\<close>
  "M_PI = Fin pi"

subsection \<open>CAN frames and messages\<close>

text \<open>The \<^verbatim>\<open>struct can_frame\<close> of SocketCAN: identifier, payload length, payload.\<close>

record can_frame =
  can_id :: "32 word"
  can_dlc :: "8 word"
  data :: "8 word list"

text \<open>The enumerators of \<^verbatim>\<open>odrive_enums.h\<close> that the source names.\<close>

datatype ODriveAxisState = AXIS_STATE_IDLE | AXIS_STATE_CLOSED_LOOP_CONTROL

datatype ODriveControlMode =
  CONTROL_MODE_TORQUE_CONTROL | CONTROL_MODE_VELOCITY_CONTROL | CONTROL_MODE_POSITION_CONTROL

datatype ODriveInputMode = INPUT_MODE_PASSTHROUGH

text \<open>
  The outbound message structs of \<^verbatim>\<open>can_simple_messages.hpp\<close> with the fields that the
  source assigns, one constructor for each struct.
\<close>

datatype msg =
  Set_Input_Pos_msg_t (Input_Pos: double) (Vel_FF: double) (Torque_FF: double)
| Set_Input_Vel_msg_t (Input_Vel: double) (Input_Torque_FF: double)
| Set_Input_Torque_msg_t (Input_Torque: double)
| Set_Controller_Mode_msg_t (Control_Mode: ODriveControlMode) (Input_Mode: ODriveInputMode)
| Set_Axis_State_msg_t (Axis_Requested_State: ODriveAxisState)
| Clear_Errors_msg_t (Identify: "8 word")

text \<open>
  What \<^verbatim>\<open>can_simple_messages.hpp\<close> declares for the two inbound messages: the command
  identifier, the payload length and the decoder of the payload. The header is not among
  the sources, so the functions that use it take these as a parameter. The decoders return
  the fields \<^verbatim>\<open>(Pos_Estimate, Vel_Estimate)\<close> and \<^verbatim>\<open>(Torque_Target, Torque_Estimate)\<close>.
\<close>

record can_simple_messages =
  Get_Encoder_Estimates_cmd_id :: "8 word"
  Get_Encoder_Estimates_msg_length :: "8 word"
  Get_Encoder_Estimates_decode_buf :: "8 word list \<Rightarrow> double \<times> double"
  Get_Torques_cmd_id :: "8 word"
  Get_Torques_msg_length :: "8 word"
  Get_Torques_decode_buf :: "8 word list \<Rightarrow> double \<times> double"

subsection \<open>The struct Axis\<close>

text \<open>
  The fields of \<^verbatim>\<open>struct Axis\<close> without the trailing underscore of their names. The
  pointer \<^verbatim>\<open>can_intf_\<close> is not a field here: the frames that an operation hands to the
  transport are returned by it, in the order of the calls.
\<close>

record Axis =
  node_id :: "32 word"
  transmission_ratio :: double
  reverse_axis :: bool
  pos_setpoint :: double
  vel_setpoint :: double
  torque_setpoint :: double
  pos_estimate :: double
  vel_estimate :: double
  torque_target :: double
  torque_estimate :: double
  pos_input_enabled :: bool
  vel_input_enabled :: bool
  torque_input_enabled :: bool

definition Axis_ctor :: "32 word \<Rightarrow> double \<Rightarrow> bool \<Rightarrow> Axis" where
  \<comment> \<open>the constructor and the default member initialisers\<close>
  "Axis_ctor node ratio reversed =
     \<lparr>node_id = node, transmission_ratio = ratio, reverse_axis = reversed,
      pos_setpoint = Fin 0, vel_setpoint = Fin 0, torque_setpoint = Fin 0,
      pos_estimate = NaN, vel_estimate = NaN, torque_target = NaN, torque_estimate = NaN,
      pos_input_enabled = False, vel_input_enabled = False, torque_input_enabled = False\<rparr>"

text \<open>
  \<^verbatim>\<open>Axis::send\<close> builds the frame \<^verbatim>\<open>node_id_ << 5 | msg.cmd_id\<close> with the encoded
  payload and hands it to the transport. The identifiers and encoders of the outbound
  messages are in the absent header, so a sent frame is kept as the node identifier with
  the message.
\<close>

record sent_frame =
  sender :: "32 word"
  message :: msg

definition send :: "Axis \<Rightarrow> msg \<Rightarrow> sent_frame" where
  "send axis m = \<lparr>sender = node_id axis, message = m\<rparr>"

subsection \<open>Axis::on\_can\_msg\<close>

definition try_decode :: "can_simple_messages \<Rightarrow> can_frame \<Rightarrow> bool" where
  \<comment> \<open>the length test of the lambda, the same for both message types\<close>
  "try_decode k frame \<longleftrightarrow> \<not> can_dlc frame < Get_Encoder_Estimates_msg_length k"

definition Axis_on_can_msg :: "can_simple_messages \<Rightarrow> nat \<Rightarrow> can_frame \<Rightarrow> Axis \<Rightarrow> Axis" where
  "Axis_on_can_msg k ts frame axis =
     (let cmd = (ucast (can_id frame AND 0x1f) :: 8 word) in
      if cmd = Get_Encoder_Estimates_cmd_id k then
        (if try_decode k frame then
           (let m = Get_Encoder_Estimates_decode_buf k (data frame) in
            axis\<lparr>pos_estimate := fst m * (Fin 2 * M_PI),
                 vel_estimate := snd m * (Fin 2 * M_PI)\<rparr>)
         else axis)
      else if cmd = Get_Torques_cmd_id k then
        (if try_decode k frame then
           (let m = Get_Torques_decode_buf k (data frame) in
            axis\<lparr>torque_target := fst m, torque_estimate := snd m\<rparr>)
         else axis)
      else axis)"

subsection \<open>The class ODriveHardwareInterface\<close>

record ODriveHardwareInterface =
  active :: bool
  axes :: "Axis list"
  timestamp :: nat

definition on_can_msg ::
  "can_simple_messages \<Rightarrow> can_frame \<Rightarrow> ODriveHardwareInterface \<Rightarrow> ODriveHardwareInterface" where
  "on_can_msg k frame h =
     h\<lparr>axes := map (\<lambda>axis. if drop_bit 5 (can_id frame) = node_id axis
                             then Axis_on_can_msg k (timestamp h) frame axis else axis)
                   (axes h)\<rparr>"

definition read_convert :: "Axis \<Rightarrow> Axis" where
  \<comment> \<open>the body of the loop of \<^verbatim>\<open>read\<close>\<close>
  "read_convert axis =
     (if reverse_axis axis = False then
        axis\<lparr>pos_estimate := pos_estimate axis * - transmission_ratio axis,
             vel_estimate := vel_estimate axis * - transmission_ratio axis,
             torque_estimate := torque_estimate axis * - transmission_ratio axis\<rparr>
      else
        axis\<lparr>pos_estimate := pos_estimate axis * transmission_ratio axis,
             vel_estimate := vel_estimate axis * transmission_ratio axis,
             torque_estimate := torque_estimate axis * transmission_ratio axis\<rparr>)"

definition read ::
  "can_simple_messages \<Rightarrow> nat \<Rightarrow> can_frame list \<Rightarrow> ODriveHardwareInterface
     \<Rightarrow> ODriveHardwareInterface" where
  \<comment> \<open>\<open>pending\<close> are the frames that \<^verbatim>\<open>read_nonblocking\<close> delivers to the callback, in order\<close>
  "read k ts pending h =
     (let h1 = h\<lparr>timestamp := ts\<rparr>;
          h2 = fold (on_can_msg k) pending h1
      in h2\<lparr>axes := map read_convert (axes h2)\<rparr>)"

definition write_axis :: "Axis \<Rightarrow> sent_frame list" where
  \<comment> \<open>the body of the loop of \<^verbatim>\<open>write\<close>; the log lines for \<^verbatim>\<open>i == 2\<close> send nothing\<close>
  "write_axis axis =
     (if pos_input_enabled axis then
        (if reverse_axis axis = True then
           [send axis (Set_Input_Pos_msg_t
              (- pos_setpoint axis / (Fin 2 * M_PI * transmission_ratio axis))
              (if - (of_bool (vel_input_enabled axis) :: int) \<noteq> 0
               then vel_setpoint axis / (Fin 2 * M_PI * transmission_ratio axis) else Fin 0)
              (if - (of_bool (torque_input_enabled axis) :: int) \<noteq> 0
               then torque_setpoint axis / transmission_ratio axis else Fin 0))]
         else
           [send axis (Set_Input_Pos_msg_t
              (pos_setpoint axis / (Fin 2 * M_PI * transmission_ratio axis))
              (if vel_input_enabled axis
               then vel_setpoint axis / (Fin 2 * M_PI * transmission_ratio axis) else Fin 0)
              (if torque_input_enabled axis
               then torque_setpoint axis / transmission_ratio axis else Fin 0))])
      else if vel_input_enabled axis then
        (if reverse_axis axis = True then
           [send axis (Set_Input_Vel_msg_t
              (- vel_setpoint axis / (Fin 2 * M_PI * transmission_ratio axis))
              (if - (of_bool (torque_input_enabled axis) :: int) \<noteq> 0
               then torque_setpoint axis / transmission_ratio axis else Fin 0))]
         else
           [send axis (Set_Input_Vel_msg_t
              (vel_setpoint axis / (Fin 2 * M_PI * transmission_ratio axis))
              (if torque_input_enabled axis
               then torque_setpoint axis / transmission_ratio axis else Fin 0))])
      else if torque_input_enabled axis then
        (if reverse_axis axis = True then
           [send axis (Set_Input_Torque_msg_t (- torque_setpoint axis / transmission_ratio axis))]
         else
           [send axis (Set_Input_Torque_msg_t (torque_setpoint axis / transmission_ratio axis))])
      else [])"

definition write_hw :: "ODriveHardwareInterface \<Rightarrow> sent_frame list" where
  \<comment> \<open>\<^verbatim>\<open>ODriveHardwareInterface::write\<close>: the frames sent, axis after axis\<close>
  "write_hw h = concat (map write_axis (axes h))"

definition set_axis_command_mode :: "bool \<Rightarrow> Axis \<Rightarrow> Axis \<times> sent_frame list" where
  \<comment> \<open>the first argument is the member \<^verbatim>\<open>active_\<close>\<close>
  "set_axis_command_mode act axis =
     (if \<not> act then (axis, [send axis (Set_Axis_State_msg_t AXIS_STATE_IDLE)])
      else if pos_input_enabled axis then
        (let axis' = axis\<lparr>pos_setpoint := pos_estimate axis,
                          vel_setpoint := Fin 0, torque_setpoint := Fin 0\<rparr>
         in (axis',
             [send axis' (Set_Controller_Mode_msg_t CONTROL_MODE_POSITION_CONTROL INPUT_MODE_PASSTHROUGH),
              send axis' (Clear_Errors_msg_t 0),
              send axis' (Set_Axis_State_msg_t AXIS_STATE_CLOSED_LOOP_CONTROL)]))
      else if vel_input_enabled axis then
        (axis,
         [send axis (Set_Controller_Mode_msg_t CONTROL_MODE_VELOCITY_CONTROL INPUT_MODE_PASSTHROUGH),
          send axis (Clear_Errors_msg_t 0),
          send axis (Set_Axis_State_msg_t AXIS_STATE_CLOSED_LOOP_CONTROL)])
      else if torque_input_enabled axis then
        (axis,
         [send axis (Set_Controller_Mode_msg_t CONTROL_MODE_TORQUE_CONTROL INPUT_MODE_PASSTHROUGH),
          send axis (Clear_Errors_msg_t 0),
          send axis (Set_Axis_State_msg_t AXIS_STATE_CLOSED_LOOP_CONTROL)])
      else (axis, [send axis (Set_Axis_State_msg_t AXIS_STATE_IDLE)]))"

definition set_all_axes ::
  "ODriveHardwareInterface \<Rightarrow> ODriveHardwareInterface \<times> sent_frame list" where
  \<comment> \<open>the loop \<^verbatim>\<open>for (auto& axis : axes_) set_axis_command_mode(axis)\<close>\<close>
  "set_all_axes h =
     (let rs = map (set_axis_command_mode (active h)) (axes h)
      in (h\<lparr>axes := map fst rs\<rparr>, concat (map snd rs)))"

definition on_activate ::
  "ODriveHardwareInterface \<Rightarrow> ODriveHardwareInterface \<times> sent_frame list" where
  "on_activate h = set_all_axes (h\<lparr>active := True\<rparr>)"


subsection \<open>The selection of the setpoint message\<close>

text \<open>
  The three command channels, the channel whose setpoint a message carries, and the
  priority rule in the words of section 4.3 of the specification: position before
  velocity before torque. The rule is compared with \<open>write_hw\<close> below.
\<close>

datatype channel = Position | Velocity | Torque

fun msg_channel :: "msg \<Rightarrow> channel option" where
  "msg_channel (Set_Input_Pos_msg_t p v t) = Some Position"
| "msg_channel (Set_Input_Vel_msg_t v t) = Some Velocity"
| "msg_channel (Set_Input_Torque_msg_t t) = Some Torque"
| "msg_channel (Set_Controller_Mode_msg_t c i) = None"
| "msg_channel (Set_Axis_State_msg_t s) = None"
| "msg_channel (Clear_Errors_msg_t e) = None"

definition selected_channel :: "Axis \<Rightarrow> channel option" where
  "selected_channel a =
     (if pos_input_enabled a then Some Position
      else if vel_input_enabled a then Some Velocity
      else if torque_input_enabled a then Some Torque
      else None)"

subsection \<open>The inbound messages of the device\<close>

definition le_word32 :: "8 word list \<Rightarrow> 32 word" where
  \<comment> \<open>Modelled from the spec: the little-endian layout of section 4.1 for a 32-bit
      field, the first byte the lowest; the decoding code is in the absent header\<close>
  "le_word32 bs = foldr (\<lambda>b w. ucast b OR push_bit 8 w) (take 4 bs) 0"

definition float32_value :: "32 word \<Rightarrow> double" where
  \<comment> \<open>Modelled from the spec: the float encoding of section 6, the value of an
      IEEE 754 binary32 bit pattern; the decoding code is in the absent header\<close>
  "float32_value w =
     (let e = unat (drop_bit 23 w AND 0xFF);
          m = unat (w AND 0x7FFFFF);
          s = (if bit w 31 then - 1 else 1 :: real)
      in if e = 255 then (if m = 0 then Infinite else NaN)
         else if e = 0 then Fin (s * real m / 2 ^ 149)
         else if 150 \<le> e then Fin (s * real (2 ^ 23 + m) * 2 ^ (e - 150))
         else Fin (s * real (2 ^ 23 + m) / 2 ^ (150 - e)))"

definition decode_two_floats :: "8 word list \<Rightarrow> double \<times> double" where
  \<comment> \<open>Modelled from the spec: the \<^verbatim>\<open>decode_buf\<close> of a message of two floats, which is
      in the absent header\<close>
  "decode_two_floats buf = (float32_value (le_word32 buf), float32_value (le_word32 (drop 4 buf)))"

definition can_simple :: can_simple_messages where
  \<comment> \<open>Modelled from the spec: the header \<^verbatim>\<open>can_simple_messages.hpp\<close> with the command
      identifiers, lengths and decoders of the messages is not among the sources. Sections
      4.1 and 6 of the specification fix a 5-bit command identifier, a payload of at most 8
      bytes and a little-endian layout of the typed fields as in the published command set
      of the device: encoder estimates are command 0x09 and torques command 0x1C, each
      with two 32-bit floats in 8 bytes.\<close>
  "can_simple =
     \<lparr>Get_Encoder_Estimates_cmd_id = 0x09,
      Get_Encoder_Estimates_msg_length = 8,
      Get_Encoder_Estimates_decode_buf = decode_two_floats,
      Get_Torques_cmd_id = 0x1C,
      Get_Torques_msg_length = 8,
      Get_Torques_decode_buf = decode_two_floats\<rparr>"

subsection \<open>Example configurations\<close>

text \<open>
  The axis of the first scenario of the specification: address 5, gear ratio 2, not
  reversed, the position channel enabled with the setpoint \<open>\<pi>\<close>.
\<close>

definition scenario_axis :: Axis where
  "scenario_axis = (Axis_ctor 5 (Fin 2) False)\<lparr>pos_setpoint := Fin pi, pos_input_enabled := True\<rparr>"

text \<open>A reversed axis with gear ratio 1 and all three channels enabled.\<close>

definition reversed_axis :: Axis where
  "reversed_axis = (Axis_ctor 5 (Fin 1) True)
     \<lparr>pos_setpoint := Fin (2 * pi), vel_setpoint := Fin (2 * pi), torque_setpoint := Fin 1,
      pos_input_enabled := True, vel_input_enabled := True, torque_input_enabled := True\<rparr>"

text \<open>
  The second scenario: an interface with one axis at address 5, gear ratio 3, not reversed,
  and an encoder frame for node 5 (identifier \<open>5 << 5 | 0x09\<close>) whose first float is 0.5.
\<close>

definition scenario_hw :: ODriveHardwareInterface where
  "scenario_hw = \<lparr>active = True, axes = [Axis_ctor 5 (Fin 3) False], timestamp = 0\<rparr>"

definition encoder_frame :: can_frame where
  "encoder_frame = \<lparr>can_id = 0xA9, can_dlc = 8, data = [0, 0, 0, 0x3F, 0, 0, 0, 0]\<rparr>"

text \<open>
  An interface with one axis at address 5, gear ratio 2, not reversed, whose position
  channel is enabled.
\<close>

definition roundtrip_hw :: ODriveHardwareInterface where
  "roundtrip_hw = \<lparr>active = True,
                    axes = [(Axis_ctor 5 (Fin 2) False)\<lparr>pos_input_enabled := True\<rparr>],
                    timestamp = 0\<rparr>"

text \<open>A non-reversed axis with gear ratio 1 whose estimates are all 1.\<close>

definition unit_hw :: ODriveHardwareInterface where
  "unit_hw = \<lparr>active = True,
               axes = [(Axis_ctor 5 (Fin 1) False)
                         \<lparr>pos_estimate := Fin 1, vel_estimate := Fin 1, torque_estimate := Fin 1\<rparr>],
               timestamp = 0\<rparr>"

text \<open>An axis with gear ratio 3 and the estimates 1, 2 and 0.\<close>

definition geared_hw :: ODriveHardwareInterface where
  "geared_hw = \<lparr>active = True,
                 axes = [(Axis_ctor 5 (Fin 3) False)
                           \<lparr>pos_estimate := Fin 1, vel_estimate := Fin 2, torque_estimate := Fin 0\<rparr>],
                 timestamp = 0\<rparr>"

text \<open>An axis with all three channels enabled and a known position estimate.\<close>

definition all_enabled_axis :: Axis where
  "all_enabled_axis = (Axis_ctor 5 (Fin 2) False)
     \<lparr>pos_setpoint := Fin 7, vel_setpoint := Fin 1, torque_setpoint := Fin 1,
      pos_estimate := Fin (3 / 2),
      pos_input_enabled := True, vel_input_enabled := True, torque_input_enabled := True\<rparr>"


text \<open>Two axes at the addresses 5 and 6, and an encoder frame for the absent node 7.\<close>

definition two_axes_hw :: ODriveHardwareInterface where
  "two_axes_hw = \<lparr>active = True, axes = [Axis_ctor 5 (Fin 3) False, Axis_ctor 6 (Fin 1) True],
                   timestamp = 0\<rparr>"

definition foreign_frame :: can_frame where
  "foreign_frame = \<lparr>can_id = 0xE9, can_dlc = 8, data = [0, 0, 0, 0x3F, 0, 0, 0, 0]\<rparr>"

text \<open>Truncated frames for node 5: encoder estimates with 4 bytes, torques with 7 bytes.\<close>

definition short_encoder_frame :: can_frame where
  "short_encoder_frame = \<lparr>can_id = 0xA9, can_dlc = 4, data = [0, 0, 0, 0x3F, 0, 0, 0, 0]\<rparr>"

definition short_torques_frame :: can_frame where
  "short_torques_frame = \<lparr>can_id = 0xBC, can_dlc = 7, data = [0, 0, 0, 0x3F, 0, 0, 0, 0]\<rparr>"

section \<open>Properties\<close>

subsection \<open>Auxiliary facts\<close>

lemma write_axis_sender:
  "map sender (write_axis a) =
     (if pos_input_enabled a \<or> vel_input_enabled a \<or> torque_input_enabled a
      then [node_id a] else [])"
  by (simp add: write_axis_def send_def)

lemma write_senders:
  "map sender (concat (map write_axis xs)) =
     map node_id (filter (\<lambda>a. pos_input_enabled a \<or> vel_input_enabled a \<or> torque_input_enabled a) xs)"
  by (induction xs) (simp_all add: write_axis_sender)

lemma write_axis_channel:
  "map (\<lambda>f. (sender f, msg_channel (message f))) (write_axis a) =
     (case selected_channel a of None \<Rightarrow> [] | Some c \<Rightarrow> [(node_id a, Some c)])"
  by (simp add: write_axis_def send_def selected_channel_def)

lemma write_channels:
  "map (\<lambda>f. (sender f, msg_channel (message f))) (concat (map write_axis xs)) =
     concat (map (\<lambda>a. case selected_channel a of None \<Rightarrow> [] | Some c \<Rightarrow> [(node_id a, Some c)]) xs)"
  by (induction xs) (simp_all add: write_axis_channel)

lemma axes_read:
  "axes (read k ts pending h) =
     map read_convert (axes (fold (on_can_msg k) pending (h\<lparr>timestamp := ts\<rparr>)))"
  by (simp add: read_def Let_def)

lemma length_axes_on_can_msg [simp]: "length (axes (on_can_msg k f h)) = length (axes h)"
  by (simp add: on_can_msg_def)

lemma length_axes_fold [simp]:
  "length (axes (fold (on_can_msg k) pending h)) = length (axes h)"
  by (induction pending arbitrary: h) simp_all

lemma length_axes_read [simp]: "length (axes (read k ts pending h)) = length (axes h)"
  by (simp add: axes_read)

lemma nth_axes_on_can_msg:
  "i < length (axes h) \<Longrightarrow>
   axes (on_can_msg k f h) ! i =
     (if drop_bit 5 (can_id f) = node_id (axes h ! i)
      then Axis_on_can_msg k (timestamp h) f (axes h ! i) else axes h ! i)"
  by (simp add: on_can_msg_def)

lemma nth_axes_fold_other:
  "i < length (axes h) \<Longrightarrow>
   \<forall>f\<in>set pending. drop_bit 5 (can_id f) \<noteq> node_id (axes h ! i) \<Longrightarrow>
   axes (fold (on_can_msg k) pending h) ! i = axes h ! i"
proof (induction pending arbitrary: h)
  case Nil
  then show ?case by simp
next
  case (Cons f fs)
  have step: "axes (on_can_msg k f h) ! i = axes h ! i"
    using Cons.prems by (simp add: nth_axes_on_can_msg)
  have "axes (fold (on_can_msg k) fs (on_can_msg k f h)) ! i = axes (on_can_msg k f h) ! i"
    using Cons.prems by (intro Cons.IH) (simp_all add: step)
  then show ?case by (simp add: step)
qed

lemma nth_axes_read_other:
  assumes "i < length (axes h)"
    and "\<forall>f\<in>set pending. drop_bit 5 (can_id f) \<noteq> node_id (axes h ! i)"
  shows "axes (read k ts pending h) ! i = read_convert (axes h ! i)"
proof -
  have "axes (fold (on_can_msg k) pending (h\<lparr>timestamp := ts\<rparr>)) ! i
          = axes (h\<lparr>timestamp := ts\<rparr>) ! i"
    using assms by (intro nth_axes_fold_other) simp_all
  then show ?thesis using assms(1) by (simp add: axes_read)
qed

lemma read_convert_config [simp]:
  "node_id (read_convert a) = node_id a"
  "transmission_ratio (read_convert a) = transmission_ratio a"
  "reverse_axis (read_convert a) = reverse_axis a"
  by (simp_all add: read_convert_def)

lemma read_convert_twice_Fin:
  assumes "transmission_ratio a = Fin g"
  shows "pos_estimate a = Fin x \<Longrightarrow>
           pos_estimate (read_convert (read_convert a)) = Fin (x * g * g)"
    and "vel_estimate a = Fin x \<Longrightarrow>
           vel_estimate (read_convert (read_convert a)) = Fin (x * g * g)"
    and "torque_estimate a = Fin x \<Longrightarrow>
           torque_estimate (read_convert (read_convert a)) = Fin (x * g * g)"
  using assms by (simp_all add: read_convert_def)

lemma read_convert_once_Fin:
  assumes "transmission_ratio a = Fin g"
  shows "pos_estimate a = Fin x \<Longrightarrow>
           pos_estimate (read_convert a) = Fin (x * (if reverse_axis a then g else - g))"
    and "vel_estimate a = Fin x \<Longrightarrow>
           vel_estimate (read_convert a) = Fin (x * (if reverse_axis a then g else - g))"
    and "torque_estimate a = Fin x \<Longrightarrow>
           torque_estimate (read_convert a) = Fin (x * (if reverse_axis a then g else - g))"
  using assms by (simp_all add: read_convert_def)

lemma square_fixed: "(x * g * g = x) \<longleftrightarrow> (x = 0 \<or> g * g = 1)" for x g :: real
proof -
  have "x * g * g - x = x * (g * g - 1)" by (simp add: algebra_simps)
  then have "(x * g * g - x = 0) \<longleftrightarrow> (x = 0 \<or> g * g - 1 = 0)"
    by (simp only: mult_eq_0_iff)
  then show ?thesis by simp
qed

lemma decode_half: "decode_two_floats [0, 0, 0, 0x3F, 0, 0, 0, 0] = (Fin (1 / 2), Fin 0)"
  by (simp add: decode_two_floats_def le_word32_def float32_value_def)

lemma drained_scenario:
  "axes (on_can_msg can_simple encoder_frame (scenario_hw\<lparr>timestamp := 7\<rparr>)) =
     [(Axis_ctor 5 (Fin 3) False)\<lparr>pos_estimate := Fin pi, vel_estimate := Fin 0\<rparr>]"
  by (simp add: on_can_msg_def Axis_on_can_msg_def try_decode_def can_simple_def
      encoder_frame_def scenario_hw_def Axis_ctor_def decode_half M_PI_def)


subsection \<open>The write cycle\<close>

text \<open>
  C1 on the axis of the scenario (gear ratio 2, not reversed, position setpoint \<open>\<pi>\<close>):
  the write cycle sends \<open>Input_Pos = 1/4\<close>, not \<open>-1/4\<close>, because \<^verbatim>\<open>write\<close> negates the
  setpoint of a reversed axis while \<^verbatim>\<open>read\<close> negates the estimates of an axis that is
  not reversed. The two paths do not fit: on the axis with gear ratio 2 that is not
  reversed, an encoder reading of \<open>0.5\<close> revolutions becomes the estimate \<open>-2\<pi>\<close>, the mode
  switch copies it into the position setpoint, and the write cycle then commands
  \<open>Input_Pos = -0.5\<close>, the opposite of the reading.
\<close>

theorem write_Input_Pos_sign:
  "reverse_axis scenario_axis = False
   \<and> write_axis scenario_axis =
       [send scenario_axis (Set_Input_Pos_msg_t (Fin (1 / 4)) (Fin 0) (Fin 0))]
   \<and> map (Input_Pos \<circ> message) (write_axis scenario_axis) \<noteq> [Fin (- (1 / 4))]
   \<and> pos_estimate (axes (read can_simple 7 [encoder_frame] roundtrip_hw) ! 0) = Fin (- (2 * pi))
   \<and> map (Input_Pos \<circ> message)
        (write_axis (fst (set_axis_command_mode True
           (axes (read can_simple 7 [encoder_frame] roundtrip_hw) ! 0)))) = [Fin (- (1 / 2))]"
proof -
  have sc: "write_axis scenario_axis =
       [send scenario_axis (Set_Input_Pos_msg_t (Fin (1 / 4)) (Fin 0) (Fin 0))]"
    by (simp add: scenario_axis_def Axis_ctor_def write_axis_def send_def M_PI_def)
  have rd: "axes (read can_simple 7 [encoder_frame] roundtrip_hw) ! 0 =
      (Axis_ctor 5 (Fin 2) False)
        \<lparr>pos_input_enabled := True, pos_estimate := Fin (- (2 * pi)), vel_estimate := Fin 0,
         torque_estimate := NaN\<rparr>"
    by (simp add: read_def on_can_msg_def Axis_on_can_msg_def try_decode_def can_simple_def
        encoder_frame_def roundtrip_hw_def Axis_ctor_def decode_half M_PI_def read_convert_def)
  show ?thesis
    by (simp add: sc rd)
       (simp add: scenario_axis_def Axis_ctor_def set_axis_command_mode_def write_axis_def
          send_def M_PI_def)
qed

text \<open>
  C2 on a reversed axis with gear ratio 1, all channels enabled and the setpoints \<open>2\<pi>\<close>,
  \<open>2\<pi>\<close> and 1: the position message carries \<open>Input_Pos = -1\<close> but the feed-forward terms
  \<open>Vel_FF = 1\<close> and \<open>Torque_FF = 1\<close>, without the sign of the primary setpoint, because the
  minus of \<^verbatim>\<open>-axis.vel_input_enabled_ ? x : 0.0f\<close> applies to the flag and not to \<open>x\<close>.
  The velocity message of the same axis carries \<open>Input_Vel = -1\<close> and
  \<open>Input_Torque_FF = 1\<close> likewise.
\<close>

theorem write_feed_forward_reversed:
  "write_axis reversed_axis =
     [send reversed_axis (Set_Input_Pos_msg_t (Fin (- 1)) (Fin 1) (Fin 1))]
   \<and> write_axis (reversed_axis\<lparr>pos_input_enabled := False\<rparr>) =
     [send reversed_axis (Set_Input_Vel_msg_t (Fin (- 1)) (Fin 1))]"
  by (simp add: reversed_axis_def Axis_ctor_def write_axis_def send_def M_PI_def)

text \<open>
  C3: the frames of a write cycle are the frames of the loop body on each axis, in the
  order of the axes. For every axis and every combination of the three flags the loop
  body sends one position message if the position channel is enabled, else one velocity
  message if the velocity channel is enabled, else one torque message if the torque
  channel is enabled, else nothing. So the frames of the whole cycle, read as sender and
  channel, are those of the priority rule: for each axis in order, one setpoint message
  of the selected channel, and none for an axis with no channel enabled.
\<close>

theorem write_selects_one_message:
  "write_hw h = concat (map write_axis (axes h))
   \<and> (if pos_input_enabled a then \<exists>p v t. write_axis a = [send a (Set_Input_Pos_msg_t p v t)]
      else if vel_input_enabled a then \<exists>v t. write_axis a = [send a (Set_Input_Vel_msg_t v t)]
      else if torque_input_enabled a then \<exists>t. write_axis a = [send a (Set_Input_Torque_msg_t t)]
      else write_axis a = [])
   \<and> map sender (write_hw h) =
       map node_id
         (filter (\<lambda>a. pos_input_enabled a \<or> vel_input_enabled a \<or> torque_input_enabled a)
            (axes h))
   \<and> map (\<lambda>f. (sender f, msg_channel (message f))) (write_hw h) =
       concat (map (\<lambda>a. case selected_channel a of None \<Rightarrow> [] | Some c \<Rightarrow> [(node_id a, Some c)])
                 (axes h))"
proof -
  have cyc: "write_hw h = concat (map write_axis (axes h))"
    by (simp add: write_hw_def)
  have body: "(if pos_input_enabled a then \<exists>p v t. write_axis a = [send a (Set_Input_Pos_msg_t p v t)]
      else if vel_input_enabled a then \<exists>v t. write_axis a = [send a (Set_Input_Vel_msg_t v t)]
      else if torque_input_enabled a then \<exists>t. write_axis a = [send a (Set_Input_Torque_msg_t t)]
      else write_axis a = [])"
    by (auto simp add: write_axis_def)
  show ?thesis
    using body by (simp add: cyc write_senders write_channels)
qed

subsection \<open>The read cycle\<close>

text \<open>
  C4: a read cycle drains the pending frames and then multiplies the position, velocity
  and torque estimate of every axis by the gear ratio when the axis is reversed and by
  the negated gear ratio when it is not. In particular, when the only pending frame is
  an encoder frame for the axis that is long enough and carries the finite position
  \<open>x\<close>, and the gear ratio is the finite \<open>g\<close>, the position estimate after the cycle is
  \<open>x \<cdot> 2\<pi> \<cdot> (- g)\<close> on an axis that is not reversed and \<open>x \<cdot> 2\<pi> \<cdot> g\<close> on a reversed one.
\<close>

theorem read_scales_estimates:
  assumes "i < length (axes h)"
  shows "(let a = axes (fold (on_can_msg k) pending (h\<lparr>timestamp := ts\<rparr>)) ! i;
              a' = axes (read k ts pending h) ! i;
              f = (if reverse_axis a then transmission_ratio a else - transmission_ratio a)
          in pos_estimate a' = pos_estimate a * f
             \<and> vel_estimate a' = vel_estimate a * f
             \<and> torque_estimate a' = torque_estimate a * f)
    \<and> (drop_bit 5 (can_id frame) = node_id (axes h ! i)
        \<and> ucast (can_id frame AND 0x1f) = Get_Encoder_Estimates_cmd_id k
        \<and> \<not> can_dlc frame < Get_Encoder_Estimates_msg_length k
        \<and> Get_Encoder_Estimates_decode_buf k (data frame) = (Fin x, Fin y)
        \<and> transmission_ratio (axes h ! i) = Fin g
        \<longrightarrow> pos_estimate (axes (read k ts [frame] h) ! i)
              = Fin (x * (2 * pi) * (if reverse_axis (axes h ! i) then g else - g)))"
  using assms
  by (simp add: axes_read Let_def nth_axes_on_can_msg)
     (simp add: read_convert_def Axis_on_can_msg_def try_decode_def M_PI_def)

text \<open>
  The scenario: the encoder frame with \<open>Pos_Estimate = 0.5\<close> on the axis with gear ratio 3
  that is not reversed leaves \<open>-3\<pi>\<close> after the read cycle.
\<close>

theorem read_scales_estimates_witness:
  "(0::nat) < length (axes scenario_hw)
   \<and> drop_bit 5 (can_id encoder_frame) = node_id (axes scenario_hw ! 0)
   \<and> ucast (can_id encoder_frame AND 0x1f) = Get_Encoder_Estimates_cmd_id can_simple
   \<and> \<not> can_dlc encoder_frame < Get_Encoder_Estimates_msg_length can_simple
   \<and> Get_Encoder_Estimates_decode_buf can_simple (data encoder_frame) = (Fin (1 / 2), Fin 0)
   \<and> transmission_ratio (axes scenario_hw ! 0) = Fin 3
   \<and> reverse_axis (axes scenario_hw ! 0) = False
   \<and> pos_estimate (axes (read can_simple 7 [encoder_frame] scenario_hw) ! 0) = Fin (- 3 * pi)"
  using read_scales_estimates [where i = 0 and k = can_simple and pending = "[encoder_frame]"
      and h = scenario_hw and ts = 7 and frame = encoder_frame and x = "1 / 2" and y = 0 and g = 3]
  by (simp add: scenario_hw_def encoder_frame_def can_simple_def decode_half Axis_ctor_def)

text \<open>
  C5, as the source has it: the multiplication is applied to an axis also in a cycle whose
  frames are all for other nodes, so one such cycle multiplies finite estimates by \<open>g\<close> or
  \<open>- g\<close>. Two consecutive cycles without a frame for the axis apply it twice, so finite
  estimates \<open>p\<close>, \<open>v\<close>, \<open>q\<close> under a finite gear ratio \<open>g\<close>
  become \<open>p\<cdot>g\<cdot>g\<close>, \<open>v\<cdot>g\<cdot>g\<close>, \<open>q\<cdot>g\<cdot>g\<close>, whether or not the axis is reversed. Such an
  estimate differs from the one before the two cycles exactly when it is not zero and
  \<open>g\<cdot>g\<close> is not 1.
\<close>

theorem read_twice_without_frames:
  assumes "i < length (axes h)"
    and "\<forall>f\<in>set (pending1 @ pending2). drop_bit 5 (can_id f) \<noteq> node_id (axes h ! i)"
    and "transmission_ratio (axes h ! i) = Fin g"
    and "pos_estimate (axes h ! i) = Fin p"
    and "vel_estimate (axes h ! i) = Fin v"
    and "torque_estimate (axes h ! i) = Fin q"
  shows "axes (read k t1 pending1 h) ! i = read_convert (axes h ! i)
    \<and> axes (read k t2 pending2 (read k t1 pending1 h)) ! i = read_convert (read_convert (axes h ! i))
    \<and> pos_estimate (axes (read k t1 pending1 h) ! i)
        = Fin (p * (if reverse_axis (axes h ! i) then g else - g))
    \<and> vel_estimate (axes (read k t1 pending1 h) ! i)
        = Fin (v * (if reverse_axis (axes h ! i) then g else - g))
    \<and> torque_estimate (axes (read k t1 pending1 h) ! i)
        = Fin (q * (if reverse_axis (axes h ! i) then g else - g))
    \<and> pos_estimate (axes (read k t2 pending2 (read k t1 pending1 h)) ! i) = Fin (p * g * g)
    \<and> vel_estimate (axes (read k t2 pending2 (read k t1 pending1 h)) ! i) = Fin (v * g * g)
    \<and> torque_estimate (axes (read k t2 pending2 (read k t1 pending1 h)) ! i) = Fin (q * g * g)
    \<and> (Fin (p * g * g) \<noteq> Fin p \<longleftrightarrow> p \<noteq> 0 \<and> g * g \<noteq> 1)
    \<and> (Fin (v * g * g) \<noteq> Fin v \<longleftrightarrow> v \<noteq> 0 \<and> g * g \<noteq> 1)
    \<and> (Fin (q * g * g) \<noteq> Fin q \<longleftrightarrow> q \<noteq> 0 \<and> g * g \<noteq> 1)"
proof -
  let ?a = "axes h ! i"
  have one: "axes (read k t1 pending1 h) ! i = read_convert ?a"
    using assms(1,2) by (intro nth_axes_read_other) simp_all
  have two: "axes (read k t2 pending2 (read k t1 pending1 h)) ! i = read_convert (read_convert ?a)"
  proof -
    have "axes (read k t2 pending2 (read k t1 pending1 h)) ! i
            = read_convert (axes (read k t1 pending1 h) ! i)"
      using assms(1,2) by (intro nth_axes_read_other) (simp_all add: one)
    then show ?thesis by (simp only: one)
  qed
  show ?thesis
    using assms(3-6)
    by (simp add: one two read_convert_twice_Fin read_convert_once_Fin square_fixed)
qed

text \<open>
  On the axis with gear ratio 3 and the estimates 1, 2 and 0, a cycle with a frame for
  node 7 and a cycle with no frame leave 9, 18 and 0.
\<close>

theorem read_twice_without_frames_witness:
  "(0::nat) < length (axes geared_hw)
   \<and> drop_bit 5 (can_id foreign_frame) \<noteq> node_id (axes geared_hw ! 0)
   \<and> pos_estimate (axes (read can_simple 2 [] (read can_simple 1 [foreign_frame] geared_hw)) ! 0) = Fin 9
   \<and> vel_estimate (axes (read can_simple 2 [] (read can_simple 1 [foreign_frame] geared_hw)) ! 0) = Fin 18
   \<and> torque_estimate (axes (read can_simple 2 [] (read can_simple 1 [foreign_frame] geared_hw)) ! 0) = Fin 0"
  using read_twice_without_frames [where i = 0 and h = geared_hw and k = can_simple
      and ?t1.0 = 1 and ?t2.0 = 2 and ?pending1.0 = "[foreign_frame]" and ?pending2.0 = "[]"
      and g = 3 and p = 1 and v = 2 and q = 0]
  by (simp add: geared_hw_def foreign_frame_def Axis_ctor_def read_convert_def)

text \<open>
  C5 as stated says that the estimates of every axis that is not reversed are changed by
  two cycles without frames. The axis with gear ratio 1 that is not reversed has the
  estimates 1 before the two cycles and after them.
\<close>

theorem read_twice_without_frames_counterexample:
  "reverse_axis (axes unit_hw ! 0) = False
   \<and> pos_estimate (axes unit_hw ! 0) = Fin 1
   \<and> axes (read can_simple 2 [] (read can_simple 1 [] unit_hw)) = axes unit_hw"
  by (simp add: unit_hw_def Axis_ctor_def read_def read_convert_def)

subsection \<open>Inbound frames\<close>

text \<open>
  C6: a frame whose command identifier is that of the encoder estimates or of the torques
  and whose length is below the length of that message leaves the axis as it is. The
  source tests the length of a torques frame against the length of the encoder estimates
  message, which is not below the length of the torques message (both are 8 bytes).
\<close>

theorem short_frame_ignored:
  assumes "(ucast (can_id frame AND 0x1f) = Get_Encoder_Estimates_cmd_id k
            \<and> can_dlc frame < Get_Encoder_Estimates_msg_length k)
         \<or> (ucast (can_id frame AND 0x1f) = Get_Torques_cmd_id k
            \<and> can_dlc frame < Get_Torques_msg_length k
            \<and> Get_Torques_msg_length k \<le> Get_Encoder_Estimates_msg_length k)"
  shows "Axis_on_can_msg k ts frame axis = axis"
  using assms by (auto simp add: Axis_on_can_msg_def try_decode_def Let_def)

theorem short_frame_ignored_witness:
  "Get_Torques_msg_length can_simple \<le> Get_Encoder_Estimates_msg_length can_simple
   \<and> ucast (can_id short_encoder_frame AND 0x1f) = Get_Encoder_Estimates_cmd_id can_simple
   \<and> can_dlc short_encoder_frame < Get_Encoder_Estimates_msg_length can_simple
   \<and> Axis_on_can_msg can_simple 0 short_encoder_frame (Axis_ctor 5 (Fin 3) False)
       = Axis_ctor 5 (Fin 3) False
   \<and> ucast (can_id short_torques_frame AND 0x1f) = Get_Torques_cmd_id can_simple
   \<and> can_dlc short_torques_frame < Get_Torques_msg_length can_simple
   \<and> Axis_on_can_msg can_simple 0 short_torques_frame (Axis_ctor 5 (Fin 3) False)
       = Axis_ctor 5 (Fin 3) False"
  using short_frame_ignored [where k = can_simple and ts = 0 and frame = short_encoder_frame
      and axis = "Axis_ctor 5 (Fin 3) False"]
    short_frame_ignored [where k = can_simple and ts = 0 and frame = short_torques_frame
      and axis = "Axis_ctor 5 (Fin 3) False"]
  by (simp add: can_simple_def short_encoder_frame_def short_torques_frame_def)

text \<open>
  C9: the dispatch keeps the list of axes in place; the axis at each index is the result
  of \<^verbatim>\<open>Axis::on_can_msg\<close> on the frame if the identifier shifted right by 5 bits is the
  node identifier of the axis, and is the axis as it was otherwise. A frame whose address
  is that of no axis leaves the whole interface as it was.
\<close>

theorem frame_dispatch:
  "length (axes (on_can_msg k f h)) = length (axes h)
   \<and> (\<forall>i<length (axes h).
        axes (on_can_msg k f h) ! i =
          (if drop_bit 5 (can_id f) = node_id (axes h ! i)
           then Axis_on_can_msg k (timestamp h) f (axes h ! i) else axes h ! i))
   \<and> ((\<forall>a\<in>set (axes h). drop_bit 5 (can_id f) \<noteq> node_id a) \<longrightarrow> on_can_msg k f h = h)"
proof -
  have "map (\<lambda>axis. if drop_bit 5 (can_id f) = node_id axis
                     then Axis_on_can_msg k (timestamp h) f axis else axis) (axes h) = axes h"
    if "\<forall>a\<in>set (axes h). drop_bit 5 (can_id f) \<noteq> node_id a"
    using that by (simp add: map_idI)
  then show ?thesis
    by (simp add: nth_axes_on_can_msg) (simp add: on_can_msg_def)
qed

text \<open>
  With the axes 5 and 6: the frame for node 7 changes nothing; the encoder frame for
  node 5 sets the position estimate of the first axis and leaves the second one.
\<close>

theorem frame_dispatch_witness:
  "drop_bit 5 (can_id foreign_frame) = (7 :: 32 word)
   \<and> on_can_msg can_simple foreign_frame two_axes_hw = two_axes_hw
   \<and> drop_bit 5 (can_id encoder_frame) = (5 :: 32 word)
   \<and> pos_estimate (axes (on_can_msg can_simple encoder_frame two_axes_hw) ! 0) = Fin pi
   \<and> axes (on_can_msg can_simple encoder_frame two_axes_hw) ! 1 = axes two_axes_hw ! 1"
  using frame_dispatch [of can_simple foreign_frame two_axes_hw]
    frame_dispatch [of can_simple encoder_frame two_axes_hw]
  by (simp add: two_axes_hw_def foreign_frame_def encoder_frame_def Axis_ctor_def
      Axis_on_can_msg_def try_decode_def can_simple_def decode_half M_PI_def)

subsection \<open>The mode switch\<close>


text \<open>
  C8: with the interface active and the position channel of the axis enabled, whatever
  the other two flags are, the mode switch sets the position setpoint to the position
  estimate and the velocity and torque setpoints to zero, and sends three frames: the
  controller mode for position control, the clearing of the errors and the request for
  closed-loop control, in this order.
\<close>

theorem position_mode_seeds_setpoint:
  assumes "pos_input_enabled axis"
  shows "set_axis_command_mode True axis =
    (axis\<lparr>pos_setpoint := pos_estimate axis, vel_setpoint := Fin 0, torque_setpoint := Fin 0\<rparr>,
     [\<lparr>sender = node_id axis,
       message = Set_Controller_Mode_msg_t CONTROL_MODE_POSITION_CONTROL INPUT_MODE_PASSTHROUGH\<rparr>,
      \<lparr>sender = node_id axis, message = Clear_Errors_msg_t 0\<rparr>,
      \<lparr>sender = node_id axis, message = Set_Axis_State_msg_t AXIS_STATE_CLOSED_LOOP_CONTROL\<rparr>])"
  using assms by (simp add: set_axis_command_mode_def send_def Let_def)

theorem position_mode_seeds_setpoint_witness:
  "pos_input_enabled all_enabled_axis
   \<and> vel_input_enabled all_enabled_axis \<and> torque_input_enabled all_enabled_axis
   \<and> pos_setpoint (fst (set_axis_command_mode True all_enabled_axis)) = Fin (3 / 2)
   \<and> vel_setpoint (fst (set_axis_command_mode True all_enabled_axis)) = Fin 0
   \<and> torque_setpoint (fst (set_axis_command_mode True all_enabled_axis)) = Fin 0
   \<and> map message (snd (set_axis_command_mode True all_enabled_axis)) =
       [Set_Controller_Mode_msg_t CONTROL_MODE_POSITION_CONTROL INPUT_MODE_PASSTHROUGH,
        Clear_Errors_msg_t 0, Set_Axis_State_msg_t AXIS_STATE_CLOSED_LOOP_CONTROL]"
  using position_mode_seeds_setpoint [of all_enabled_axis]
  by (simp add: all_enabled_axis_def Axis_ctor_def)



end
